theory Spec2Isabelle
  imports Main "HOL-Library.Word"
begin

section \<open>The node graph of cerata (node.cc)\<close>

text \<open>
  Nodes and edges of the hardware graph are C++ objects that refer to each other through
  pointers. Here an object is named by its address: a node by a \<open>node_ref\<close>, an edge by an
  \<open>edge_ref\<close>, a type by a \<open>type_ref\<close>. Comparing two pointers is comparing two addresses.
  The edges live in a store that the node operations only read.
\<close>

subsection \<open>Data model\<close>

type_synonym node_ref = nat
type_synonym edge_ref = nat
type_synonym type_ref = nat

text \<open>
  Modelled from the spec: class Edge is declared in edge.h, which is not among the sources.
  An edge records an optional source node and an optional destination node; node.cc reads
  them through \<open>edge->src()\<close> and \<open>edge->dst()\<close>, tests them for presence and compares them
  with \<open>this\<close>.
\<close>

record Edge =
  src :: "node_ref option"
  dst :: "node_ref option"

text \<open>
  The edge behind a \<open>shared_ptr<Edge>\<close> or an \<open>Edge *\<close>. Every pointer that node.cc
  dereferences is taken to point to an edge, as the code itself assumes.
\<close>

type_synonym edge_store = "edge_ref \<Rightarrow> Edge"

text \<open>
  Modelled from the spec: the enumerations \<open>Node::NodeID\<close>, \<open>Term::Dir\<close> and
  \<open>Literal::StorageType\<close> are declared in node.h, which is not among the sources. Their
  members are the ones node.cc names. The storage kind INT is written \<open>StorageType.INT\<close>
  in terms, since \<open>INT\<close> alone is a binder of HOL.
\<close>

datatype NodeID = PORT | SIGNAL | LITERAL | PARAMETER | EXPRESSION

datatype Dir = NONE | IN | OUT

datatype StorageType = INT | STRING | BOOL

text \<open>
  The class hierarchy as record extension: \<open>Node\<close> holds the name, the node id and the type;
  \<open>MultiOutputNode\<close> adds the deque \<open>outputs_\<close>; \<open>NormalNode\<close> adds the single pointer
  \<open>input_\<close> (null is \<open>None\<close>); \<open>Port\<close> adds the direction of \<open>Term\<close>; \<open>Parameter\<close> adds the
  optional default literal; \<open>Literal\<close> adds the storage kind and the three value members.
  A function on \<open>'a MultiOutputNode_scheme\<close> is a member function of \<open>MultiOutputNode\<close>: it
  applies to every class derived from it. The C++ members end in an underscore, which a
  record field cannot.
\<close>

record Node =
  name :: string
  node_id :: NodeID
  type :: type_ref

record MultiOutputNode = Node +
  outputs :: "edge_ref list"

record NormalNode = MultiOutputNode +
  input :: "edge_ref option"

record Port = NormalNode +
  dir :: Dir

record Parameter = NormalNode +
  default_value :: "node_ref option"

record Literal = MultiOutputNode +
  storage_type :: StorageType
  str_val :: string
  int_val :: "32 word"
  bool_val :: bool

type_synonym Signal = NormalNode

subsection \<open>MultiOutputNode\<close>

text \<open>
  Modelled from the spec: \<open>Contains\<close> is declared in utils.h, which is not among the sources.
  It tells whether the deque holds the given shared pointer, that is, the same edge object.
\<close>

fun Contains :: "edge_ref list \<Rightarrow> edge_ref \<Rightarrow> bool" where
  "Contains [] item = False"
| "Contains (x # xs) item = (if x = item then True else Contains xs item)"

text \<open>
  \<open>MultiOutputNode::AddEdge\<close>. The result is the returned flag and the node after the call;
  \<open>this\<close> is the address of the node.
\<close>

definition MultiOutputNode_AddEdge ::
  "node_ref \<Rightarrow> edge_store \<Rightarrow> 'a MultiOutputNode_scheme \<Rightarrow> edge_ref
     \<Rightarrow> bool \<times> 'a MultiOutputNode_scheme" where
  "MultiOutputNode_AddEdge this es n edge =
     (if src (es edge) \<noteq> None then
        if src (es edge) = Some this then
          if \<not> Contains (outputs n) edge then
            (True, n\<lparr>outputs := outputs n @ [edge]\<rparr>)
          else (False, n)
        else (False, n)
      else (False, n))"

text \<open>The loop of \<open>MultiOutputNode::RemoveEdge\<close>: erase the first entry that is the edge.\<close>

fun erase_first :: "edge_ref list \<Rightarrow> edge_ref \<Rightarrow> (edge_ref list) option" where
  "erase_first [] edge = None"
| "erase_first (x # xs) edge =
     (if x = edge then Some xs
      else case erase_first xs edge of None \<Rightarrow> None | Some ys \<Rightarrow> Some (x # ys))"

definition MultiOutputNode_RemoveEdge ::
  "node_ref \<Rightarrow> edge_store \<Rightarrow> 'a MultiOutputNode_scheme \<Rightarrow> edge_ref
     \<Rightarrow> bool \<times> 'a MultiOutputNode_scheme" where
  "MultiOutputNode_RemoveEdge this es n edge =
     (if src (es edge) \<noteq> None then
        if src (es edge) = Some this then
          case erase_first (outputs n) edge of
            Some ys \<Rightarrow> (True, n\<lparr>outputs := ys\<rparr>)
          | None \<Rightarrow> (False, n)
        else (False, n)
      else (False, n))"

subsection \<open>NormalNode\<close>

definition NormalNode_input :: "'a NormalNode_scheme \<Rightarrow> edge_ref option" where
  "NormalNode_input n = (if input n \<noteq> None then Some (the (input n)) else None)"

definition sources :: "'a NormalNode_scheme \<Rightarrow> edge_ref list" where
  "sources n = (if input n \<noteq> None then [the (input n)] else [])"

text \<open>
  \<open>NormalNode::AddEdge\<close>: the edge is first offered to \<open>MultiOutputNode::AddEdge\<close>; when
  that fails and the destination of the edge is this node, \<open>input_\<close> is assigned.
\<close>

definition NormalNode_AddEdge ::
  "node_ref \<Rightarrow> edge_store \<Rightarrow> 'a NormalNode_scheme \<Rightarrow> edge_ref
     \<Rightarrow> bool \<times> 'a NormalNode_scheme" where
  "NormalNode_AddEdge this es n edge =
     (case MultiOutputNode_AddEdge this es n edge of
        (success, n1) \<Rightarrow>
          if \<not> success then
            if dst (es edge) \<noteq> None then
              if dst (es edge) = Some this then (True, n1\<lparr>input := Some edge\<rparr>)
              else (success, n1)
            else (success, n1)
          else (success, n1))"

definition NormalNode_RemoveEdge ::
  "node_ref \<Rightarrow> edge_store \<Rightarrow> 'a NormalNode_scheme \<Rightarrow> edge_ref
     \<Rightarrow> bool \<times> 'a NormalNode_scheme" where
  "NormalNode_RemoveEdge this es n edge =
     (case MultiOutputNode_RemoveEdge this es n edge of
        (success, n1) \<Rightarrow>
          if dst (es edge) \<noteq> None \<and> \<not> success then
            if dst (es edge) = Some this \<and> input n1 = Some edge
            then (True, n1\<lparr>input := None\<rparr>)
            else (success, n1)
          else (success, n1))"

text \<open>
  Modelled from the spec: the constructors of \<open>MultiOutputNode\<close> and \<open>NormalNode\<close> are
  written in node.h, which is not among the sources. They pass name, node id and type on to
  \<open>Node::Node\<close>; a node that was just constructed holds no edge, so the deque of outputs is
  empty and the input pointer is null.
\<close>

definition MultiOutputNode_new :: "string \<Rightarrow> NodeID \<Rightarrow> type_ref \<Rightarrow> MultiOutputNode" where
  "MultiOutputNode_new nm nid typ =
     \<lparr>name = nm, node_id = nid, type = typ, outputs = []\<rparr>"

definition NormalNode_new :: "string \<Rightarrow> NodeID \<Rightarrow> type_ref \<Rightarrow> NormalNode" where
  "NormalNode_new nm nid typ =
     MultiOutputNode.extend (MultiOutputNode_new nm nid typ) \<lparr>input = None\<rparr>"

subsection \<open>Literal\<close>

text \<open>
  \<open>std::to_string\<close> of the C++ standard library. On an \<open>int\<close> it gives the decimal digits
  of the value, after a minus sign when the value is negative. It has no overload for
  \<open>bool\<close>: a \<open>bool\<close> argument is promoted to the \<open>int\<close> 0 or 1.
\<close>

definition digit_char :: "nat \<Rightarrow> char" where
  "digit_char d = ''0123456789'' ! d"

function to_string_nat :: "nat \<Rightarrow> string" where
  "to_string_nat n =
     (if n < 10 then [digit_char n]
      else to_string_nat (n div 10) @ [digit_char (n mod 10)])"
  by pat_completeness auto
termination
  by (relation "measure id") auto

declare to_string_nat.simps [simp del]

definition to_string :: "int \<Rightarrow> string" where
  "to_string i =
     (if i < 0 then CHR ''-'' # to_string_nat (nat (- i)) else to_string_nat (nat i))"

text \<open>The number that a string of decimal digits stands for, to state what the digits are.\<close>

definition decimal_value :: "string \<Rightarrow> nat" where
  "decimal_value cs = foldl (\<lambda>acc c. 10 * acc + (of_char c - 48)) 0 cs"

definition int_of_bool :: "bool \<Rightarrow> int" where
  "int_of_bool b = (if b then 1 else 0)"

definition Literal_ToString :: "Literal \<Rightarrow> string" where
  "Literal_ToString l =
     (if storage_type l = BOOL then to_string (int_of_bool (bool_val l))
      else if storage_type l = STRING then str_val l
      else to_string (sint (int_val l)))"

text \<open>
  Modelled from the spec: the value members of \<open>Literal\<close> are declared in node.h, which is
  not among the sources; a literal stores exactly one of a boolean, an integer and a
  string. Each of the three constructors of node.cc binds one value member and stamps the
  storage kind; the two members that it does not bind are given the empty string, zero
  and false here, and nothing below depends on them.
\<close>

definition Literal_new_string :: "string \<Rightarrow> type_ref \<Rightarrow> string \<Rightarrow> Literal" where
  "Literal_new_string nm typ v =
     MultiOutputNode.extend (MultiOutputNode_new nm LITERAL typ)
       \<lparr>storage_type = STRING, str_val = v, int_val = 0, bool_val = False\<rparr>"

definition Literal_new_int :: "string \<Rightarrow> type_ref \<Rightarrow> 32 word \<Rightarrow> Literal" where
  "Literal_new_int nm typ v =
     MultiOutputNode.extend (MultiOutputNode_new nm LITERAL typ)
       \<lparr>storage_type = StorageType.INT, str_val = [], int_val = v, bool_val = False\<rparr>"

definition Literal_new_bool :: "string \<Rightarrow> type_ref \<Rightarrow> bool \<Rightarrow> Literal" where
  "Literal_new_bool nm typ v =
     MultiOutputNode.extend (MultiOutputNode_new nm LITERAL typ)
       \<lparr>storage_type = BOOL, str_val = [], int_val = 0, bool_val = v\<rparr>"

text \<open>
  Modelled from the spec: the constructor that \<open>Literal::Copy\<close> calls takes the name, the
  type, the storage kind and all three values; it is written in node.h, which is not among
  the sources.
\<close>

definition Literal_new_all ::
  "string \<Rightarrow> type_ref \<Rightarrow> StorageType \<Rightarrow> string \<Rightarrow> 32 word \<Rightarrow> bool \<Rightarrow> Literal" where
  "Literal_new_all nm typ st sv iv bv =
     MultiOutputNode.extend (MultiOutputNode_new nm LITERAL typ)
       \<lparr>storage_type = st, str_val = sv, int_val = iv, bool_val = bv\<rparr>"

text \<open>The overloads of \<open>Literal::Make\<close>, in the order of node.cc.\<close>

definition Literal_Make_bool :: "string \<Rightarrow> type_ref \<Rightarrow> bool \<Rightarrow> Literal" where
  "Literal_Make_bool nm typ v = Literal_new_bool nm typ v"

definition Literal_Make_int :: "string \<Rightarrow> type_ref \<Rightarrow> 32 word \<Rightarrow> Literal" where
  "Literal_Make_int nm typ v = Literal_new_int nm typ v"

definition Literal_Make_typed_string :: "type_ref \<Rightarrow> string \<Rightarrow> Literal" where
  "Literal_Make_typed_string typ v = Literal_new_string v typ v"

definition Literal_Make_string :: "string \<Rightarrow> type_ref \<Rightarrow> string \<Rightarrow> Literal" where
  "Literal_Make_string nm typ v = Literal_new_string nm typ v"

text \<open>
  The two overloads without a type take it from \<open>integer()\<close> and \<open>string()\<close> of the type
  library, which is not among the sources: the type is a parameter here.
\<close>

definition Literal_Make_of_int :: "type_ref \<Rightarrow> 32 word \<Rightarrow> Literal" where
  "Literal_Make_of_int integer_type v =
     Literal_new_int (''int'' @ to_string (sint v)) integer_type v"

definition Literal_Make_of_string :: "type_ref \<Rightarrow> string \<Rightarrow> Literal" where
  "Literal_Make_of_string string_type v = Literal_new_string (''str:'' @ v) string_type v"

definition Literal_Copy :: "Literal \<Rightarrow> Literal" where
  "Literal_Copy l =
     Literal_new_all (name l) (type l) (storage_type l) (str_val l) (int_val l) (bool_val l)"

text \<open>
  \<open>Literal::AddSource\<close> throws before it does anything else: the literal is as it was and
  no edge is returned.
\<close>

datatype error = runtime_error string

definition Literal_AddSource :: "Literal \<Rightarrow> node_ref \<Rightarrow> error + edge_ref" where
  "Literal_AddSource l source = Inl (runtime_error ''Cannot drive a literal node.'')"

text \<open>
  The two shared boolean literals. Each is built once, on the first call, and the same
  object is returned ever after; \<open>boolean()\<close> is the boolean type of the type library, a
  parameter here.
\<close>

definition bool_true :: "type_ref \<Rightarrow> Literal" where
  "bool_true boolean = Literal_Make_bool ''bool_true'' boolean True"

definition bool_false :: "type_ref \<Rightarrow> Literal" where
  "bool_false boolean = Literal_Make_bool ''bool_true'' boolean False"

subsection \<open>Term, Port, Parameter and Signal\<close>

definition Invert :: "Dir \<Rightarrow> Dir" where
  "Invert d = (if d = IN then OUT else if d = OUT then IN else NONE)"

definition Port_new :: "string \<Rightarrow> type_ref \<Rightarrow> Dir \<Rightarrow> Port" where
  "Port_new nm typ d = NormalNode.extend (NormalNode_new nm PORT typ) \<lparr>dir = d\<rparr>"

definition Port_Make :: "string \<Rightarrow> type_ref \<Rightarrow> Dir \<Rightarrow> Port" where
  "Port_Make nm typ d = Port_new nm typ d"

definition Port_Copy :: "Port \<Rightarrow> Port" where
  "Port_Copy p = Port_new (name p) (type p) (dir p)"

definition InvertDirection :: "Port \<Rightarrow> Port" where
  "InvertDirection p = p\<lparr>dir := Invert (dir p)\<rparr>"

definition Parameter_new :: "string \<Rightarrow> type_ref \<Rightarrow> node_ref option \<Rightarrow> Parameter" where
  "Parameter_new nm typ dv =
     NormalNode.extend (NormalNode_new nm PARAMETER typ) \<lparr>default_value = dv\<rparr>"

definition Parameter_Make :: "string \<Rightarrow> type_ref \<Rightarrow> node_ref option \<Rightarrow> Parameter" where
  "Parameter_Make nm typ dv = Parameter_new nm typ dv"

definition Parameter_Copy :: "Parameter \<Rightarrow> Parameter" where
  "Parameter_Copy p = Parameter_Make (name p) (type p) (default_value p)"

text \<open>
  \<open>Parameter::val\<close>: the source of the input edge when there is an input edge, else the
  default literal when there is one, else nothing.
\<close>

definition val :: "edge_store \<Rightarrow> Parameter \<Rightarrow> node_ref option" where
  "val es p =
     (if NormalNode_input p \<noteq> None then src (es (the (NormalNode_input p)))
      else if default_value p \<noteq> None then Some (the (default_value p))
      else None)"

definition Signal_new :: "string \<Rightarrow> type_ref \<Rightarrow> Signal" where
  "Signal_new nm typ = NormalNode_new nm SIGNAL typ"

definition Signal_Make :: "string \<Rightarrow> type_ref \<Rightarrow> Signal" where
  "Signal_Make nm typ = Signal_new nm typ"

definition Signal_Copy :: "Signal \<Rightarrow> Signal" where
  "Signal_Copy s = Signal_new (name s) (type s)"

subsection \<open>A small graph\<close>

text \<open>
  Signal \<open>a\<close> at address 0, port \<open>b\<close> (direction out) at address 1, signal \<open>a2\<close> at
  address 2 and a literal at address 3. Edge 10 runs from \<open>a\<close> to \<open>b\<close>, edge 11 from \<open>a2\<close>
  to \<open>b\<close>, edge 12 from \<open>a\<close> to a node at address 7; every other edge has no endpoint.
\<close>

definition example_edges :: edge_store where
  "example_edges =
     (\<lambda>e. \<lparr>src = None, dst = None\<rparr>)
       (10 := \<lparr>src = Some 0, dst = Some 1\<rparr>,
        11 := \<lparr>src = Some 2, dst = Some 1\<rparr>,
        12 := \<lparr>src = Some 0, dst = Some 7\<rparr>)"

text \<open>Port \<open>b\<close> after it has accepted edge 10 as its input.\<close>

definition example_port :: Port where
  "example_port = snd (NormalNode_AddEdge 1 example_edges (Port_Make ''b'' 0 OUT) 10)"

text \<open>Signal \<open>a\<close> after it has accepted edge 10 as an output.\<close>

definition example_signal :: Signal where
  "example_signal = snd (NormalNode_AddEdge 0 example_edges (Signal_Make ''a'' 0) 10)"

text \<open>
  Three parameters at address 1: one with input edge 10 and the default literal at
  address 3, one with that default only, one with neither.
\<close>

definition example_parameter_driven :: Parameter where
  "example_parameter_driven =
     snd (NormalNode_AddEdge 1 example_edges (Parameter_Make ''p'' 0 (Some 3)) 10)"

definition example_parameter_default :: Parameter where
  "example_parameter_default = Parameter_Make ''p'' 0 (Some 3)"

definition example_parameter_bare :: Parameter where
  "example_parameter_bare = Parameter_Make ''p'' 0 None"

text \<open>
  Two edges that end at the literal at address 3: edge 13 runs from signal \<open>a\<close> to the
  literal, edge 14 from the literal to itself.
\<close>

definition literal_edges :: edge_store where
  "literal_edges =
     (\<lambda>e. \<lparr>src = None, dst = None\<rparr>)
       (13 := \<lparr>src = Some 0, dst = Some 3\<rparr>,
        14 := \<lparr>src = Some 3, dst = Some 3\<rparr>)"

section \<open>Properties\<close>

subsection \<open>Auxiliary facts\<close>

lemma Contains_iff_member: "Contains xs item \<longleftrightarrow> item \<in> set xs"
  by (induction xs) auto

lemma digit_char_value: "d < 10 \<Longrightarrow> of_char (digit_char d) = (48::nat) + d"
proof -
  assume "d < 10"
  then have "d \<in> {0, 1, 2, 3, 4, 5, 6, 7, 8, 9}"
    by auto
  then show ?thesis
    by (auto simp add: digit_char_def)
qed

lemma decimal_value_to_string_nat: "decimal_value (to_string_nat n) = n"
proof (induction n rule: to_string_nat.induct)
  case (1 n)
  show ?case
  proof (cases "n < 10")
    case True
    then show ?thesis
      by (simp add: to_string_nat.simps [of n] decimal_value_def digit_char_value)
  next
    case False
    with 1 have "decimal_value (to_string_nat (n div 10)) = n div 10"
      by simp
    with False show ?thesis
      by (simp add: to_string_nat.simps [of n] decimal_value_def digit_char_value)
  qed
qed

lemma to_string_decimal:
  "to_string i =
     (if i < 0 then CHR ''-'' # to_string_nat (nat (- i)) else to_string_nat (nat i))
   \<and> decimal_value (to_string_nat (nat \<bar>i\<bar>)) = nat \<bar>i\<bar>"
  by (simp add: to_string_def decimal_value_to_string_nat)

lemma to_string_examples:
  "to_string 0 = ''0'' \<and> to_string 7 = ''7'' \<and> to_string (- 15) = ''-15''
   \<and> to_string 2147483647 = ''2147483647''"
  by (simp add: to_string_def to_string_nat.simps digit_char_def)

lemma example_port_value:
  "example_port =
     \<lparr>name = ''b'', node_id = PORT, type = 0, outputs = [], input = Some 10, dir = OUT\<rparr>"
  by (simp add: example_port_def example_edges_def NormalNode_AddEdge_def
      MultiOutputNode_AddEdge_def Port_Make_def Port_new_def NormalNode_new_def
      MultiOutputNode_new_def MultiOutputNode.defs NormalNode.defs)

lemma example_signal_value:
  "example_signal =
     \<lparr>name = ''a'', node_id = SIGNAL, type = 0, outputs = [10], input = None\<rparr>"
  by (simp add: example_signal_def example_edges_def NormalNode_AddEdge_def
      MultiOutputNode_AddEdge_def Signal_Make_def Signal_new_def NormalNode_new_def
      MultiOutputNode_new_def MultiOutputNode.defs)

lemma example_parameter_values:
  "example_parameter_driven =
     \<lparr>name = ''p'', node_id = PARAMETER, type = 0, outputs = [], input = Some 10,
      default_value = Some 3\<rparr>"
  "example_parameter_default =
     \<lparr>name = ''p'', node_id = PARAMETER, type = 0, outputs = [], input = None,
      default_value = Some 3\<rparr>"
  "example_parameter_bare =
     \<lparr>name = ''p'', node_id = PARAMETER, type = 0, outputs = [], input = None,
      default_value = None\<rparr>"
  by (simp_all add: example_parameter_driven_def example_parameter_default_def
      example_parameter_bare_def example_edges_def NormalNode_AddEdge_def
      MultiOutputNode_AddEdge_def Parameter_Make_def Parameter_new_def NormalNode_new_def
      MultiOutputNode_new_def MultiOutputNode.defs NormalNode.defs)

lemma bool_true_value:
  "bool_true b =
     \<lparr>name = ''bool_true'', node_id = LITERAL, type = b, outputs = [],
      storage_type = BOOL, str_val = [], int_val = 0, bool_val = True\<rparr>"
  by (simp add: bool_true_def Literal_Make_bool_def Literal_new_bool_def
      MultiOutputNode_new_def MultiOutputNode.defs)

lemma bool_false_value:
  "bool_false b =
     \<lparr>name = ''bool_true'', node_id = LITERAL, type = b, outputs = [],
      storage_type = BOOL, str_val = [], int_val = 0, bool_val = False\<rparr>"
  by (simp add: bool_false_def Literal_Make_bool_def Literal_new_bool_def
      MultiOutputNode_new_def MultiOutputNode.defs)

lemma example_edges_values:
  "example_edges 10 = \<lparr>src = Some 0, dst = Some 1\<rparr>"
  "example_edges 11 = \<lparr>src = Some 2, dst = Some 1\<rparr>"
  "example_edges 12 = \<lparr>src = Some 0, dst = Some 7\<rparr>"
  by (simp_all add: example_edges_def)

lemma literal_edges_values:
  "literal_edges 13 = \<lparr>src = Some 0, dst = Some 3\<rparr>"
  "literal_edges 14 = \<lparr>src = Some 3, dst = Some 3\<rparr>"
  by (simp_all add: literal_edges_def)

subsection \<open>Fan-in of a NormalNode\<close>

text \<open>
  C1, as the code has it. A NormalNode that holds an input edge and is offered a second edge
  whose destination it is does not reject it: \<open>AddEdge\<close> returns true. Unless the edge is
  taken as an output (its source is this node as well and it is not yet among the outputs),
  the new edge replaces the held input edge, which need not be removed first; when the
  edge is taken as an output, the held input edge stays.
\<close>

theorem NormalNode_AddEdge_replaces_input:
  assumes "input n = Some e0" and "dst (es edge) = Some this"
  shows "fst (NormalNode_AddEdge this es n edge) = True \<and>
         input (snd (NormalNode_AddEdge this es n edge)) =
           (if src (es edge) = Some this \<and> edge \<notin> set (outputs n)
            then Some e0 else Some edge)"
  using assms
  by (simp add: MultiOutputNode_AddEdge_def NormalNode_AddEdge_def Contains_iff_member)

theorem NormalNode_AddEdge_replaces_input_witness:
  "input example_port = Some 10 \<and> dst (example_edges 11) = Some 1 \<and>
   fst (NormalNode_AddEdge 1 example_edges example_port 11) = True \<and>
   input (snd (NormalNode_AddEdge 1 example_edges example_port 11)) = Some 11"
proof -
  have held: "input example_port = Some 10"
    by (simp add: example_port_value)
  have to_b: "dst (example_edges 11) = Some 1"
    by (simp add: example_edges_values)
  from NormalNode_AddEdge_replaces_input [of example_port 10 example_edges 11 1] held to_b
  show ?thesis
    by (simp add: example_edges_values)
qed

text \<open>
  C1, as it is stated, fails on the small graph: port \<open>b\<close> holds edge 10 as its input, edge
  11 has \<open>b\<close> as its destination, and \<open>AddEdge\<close> neither returns false nor leaves edge 10 in
  place.
\<close>

theorem NormalNode_AddEdge_second_input_counterexample:
  "input example_port = Some 10 \<and> dst (example_edges 11) = Some 1 \<and>
   \<not> (fst (NormalNode_AddEdge 1 example_edges example_port 11) = False \<and>
      input (snd (NormalNode_AddEdge 1 example_edges example_port 11)) = Some 10)"
  by (simp add: example_port_value example_edges_values NormalNode_AddEdge_def
      MultiOutputNode_AddEdge_def)

text \<open>
  C2. \<open>NormalNode::AddEdge\<close> first offers the edge to \<open>MultiOutputNode::AddEdge\<close>, and
  when that accepts, the result is the one of \<open>MultiOutputNode::AddEdge\<close>. Only when that
  fails is the destination looked at: when it is this node, the call returns true and the
  edge becomes the input, whatever the input was before; otherwise the call returns false
  and the node is as it was. A NormalNode has one input slot, so \<open>sources()\<close> has at most
  one entry, before and after \<open>AddEdge\<close> and \<open>RemoveEdge\<close>.
\<close>

theorem NormalNode_AddEdge_output_then_input:
  "(fst (MultiOutputNode_AddEdge this es n edge) \<longrightarrow>
      NormalNode_AddEdge this es n edge = MultiOutputNode_AddEdge this es n edge)
   \<and> (\<not> fst (MultiOutputNode_AddEdge this es n edge) \<and> dst (es edge) = Some this \<longrightarrow>
      NormalNode_AddEdge this es n edge = (True, n\<lparr>input := Some edge\<rparr>))
   \<and> (\<not> fst (MultiOutputNode_AddEdge this es n edge) \<and> dst (es edge) \<noteq> Some this \<longrightarrow>
      NormalNode_AddEdge this es n edge = (False, n))
   \<and> length (sources n) \<le> 1
   \<and> length (sources (snd (NormalNode_AddEdge this es n edge))) \<le> 1
   \<and> length (sources (snd (NormalNode_RemoveEdge this es n edge))) \<le> 1"
proof -
  have slot: "length (sources m) \<le> 1" for m :: "'b NormalNode_scheme"
    by (simp add: sources_def)
  have "fst (MultiOutputNode_AddEdge this es n edge) \<longrightarrow>
      NormalNode_AddEdge this es n edge = MultiOutputNode_AddEdge this es n edge"
    by (simp add: NormalNode_AddEdge_def split: prod.splits)
  moreover have "\<not> fst (MultiOutputNode_AddEdge this es n edge) \<and> dst (es edge) = Some this \<longrightarrow>
      NormalNode_AddEdge this es n edge = (True, n\<lparr>input := Some edge\<rparr>)"
    by (simp add: NormalNode_AddEdge_def MultiOutputNode_AddEdge_def)
  moreover have "\<not> fst (MultiOutputNode_AddEdge this es n edge) \<and> dst (es edge) \<noteq> Some this \<longrightarrow>
      NormalNode_AddEdge this es n edge = (False, n)"
    by (simp add: NormalNode_AddEdge_def MultiOutputNode_AddEdge_def)
  ultimately show ?thesis
    using slot by blast
qed

theorem NormalNode_AddEdge_output_then_input_witness:
  "NormalNode_AddEdge 0 example_edges (Signal_Make ''a'' 0) 10 =
     MultiOutputNode_AddEdge 0 example_edges (Signal_Make ''a'' 0) 10
   \<and> NormalNode_AddEdge 1 example_edges example_port 11 = (True, example_port\<lparr>input := Some 11\<rparr>)
   \<and> NormalNode_AddEdge 1 example_edges example_port 12 = (False, example_port)
   \<and> sources (snd (NormalNode_AddEdge 1 example_edges example_port 11)) = [11]"
proof -
  have as_output: "fst (MultiOutputNode_AddEdge 0 example_edges (Signal_Make ''a'' 0) 10)"
    by (simp add: MultiOutputNode_AddEdge_def example_edges_values Signal_Make_def
        Signal_new_def NormalNode_new_def MultiOutputNode_new_def MultiOutputNode.defs)
  have as_input: "\<not> fst (MultiOutputNode_AddEdge 1 example_edges example_port 11)
      \<and> dst (example_edges 11) = Some 1"
    by (simp add: MultiOutputNode_AddEdge_def example_edges_values)
  have neither: "\<not> fst (MultiOutputNode_AddEdge 1 example_edges example_port 12)
      \<and> dst (example_edges 12) \<noteq> Some 1"
    by (simp add: MultiOutputNode_AddEdge_def example_edges_values)
  from NormalNode_AddEdge_output_then_input [of 0 example_edges "Signal_Make ''a'' 0" 10]
    NormalNode_AddEdge_output_then_input [of 1 example_edges example_port 11]
    NormalNode_AddEdge_output_then_input [of 1 example_edges example_port 12]
    as_output as_input neither
  show ?thesis
    by (simp add: sources_def)
qed

subsection \<open>Outputs of a MultiOutputNode\<close>

text \<open>
  C5. \<open>MultiOutputNode::AddEdge\<close> returns true exactly when the edge has this node as its
  source and is not yet among the outputs, and then the edge is appended to the outputs;
  otherwise the node is as it was. A second call with the same edge returns false and
  changes nothing, so an edge that was not among the outputs is there once after two calls,
  and the number of its entries is otherwise the same as before. Outputs without a
  repeated entry stay so.
\<close>

theorem MultiOutputNode_AddEdge_accepts_iff:
  "(fst (MultiOutputNode_AddEdge this es n edge) \<longleftrightarrow>
      src (es edge) = Some this \<and> edge \<notin> set (outputs n))
   \<and> snd (MultiOutputNode_AddEdge this es n edge) =
       (if src (es edge) = Some this \<and> edge \<notin> set (outputs n)
        then n\<lparr>outputs := outputs n @ [edge]\<rparr> else n)
   \<and> \<not> fst (MultiOutputNode_AddEdge this es
            (snd (MultiOutputNode_AddEdge this es n edge)) edge)
   \<and> snd (MultiOutputNode_AddEdge this es
          (snd (MultiOutputNode_AddEdge this es n edge)) edge)
       = snd (MultiOutputNode_AddEdge this es n edge)
   \<and> count_list (outputs (snd (MultiOutputNode_AddEdge this es
          (snd (MultiOutputNode_AddEdge this es n edge)) edge))) edge
       = (if src (es edge) = Some this \<and> edge \<notin> set (outputs n) then 1
          else count_list (outputs n) edge)
   \<and> (distinct (outputs n) \<longrightarrow>
        distinct (outputs (snd (MultiOutputNode_AddEdge this es n edge))))"
  by (simp add: MultiOutputNode_AddEdge_def Contains_iff_member)

theorem MultiOutputNode_AddEdge_accepts_iff_witness:
  "fst (MultiOutputNode_AddEdge 0 example_edges (Signal_Make ''a'' 0) 10)
   \<and> outputs (snd (MultiOutputNode_AddEdge 0 example_edges (Signal_Make ''a'' 0) 10)) = [10]
   \<and> \<not> fst (MultiOutputNode_AddEdge 0 example_edges example_signal 10)
   \<and> outputs (snd (MultiOutputNode_AddEdge 0 example_edges example_signal 10)) = [10]
   \<and> \<not> fst (MultiOutputNode_AddEdge 0 example_edges example_signal 11)
   \<and> distinct (outputs example_signal)
   \<and> distinct (outputs (snd (MultiOutputNode_AddEdge 0 example_edges example_signal 10)))"
  using MultiOutputNode_AddEdge_accepts_iff [of 0 example_edges "Signal_Make ''a'' 0" 10]
    MultiOutputNode_AddEdge_accepts_iff [of 0 example_edges example_signal 10]
    MultiOutputNode_AddEdge_accepts_iff [of 0 example_edges example_signal 11]
  by (simp add: example_edges_values example_signal_value Signal_Make_def Signal_new_def
      NormalNode_new_def MultiOutputNode_new_def MultiOutputNode.defs)

text \<open>
  C6. When \<open>AddEdge\<close> returns false, the node is the one before the call: its outputs and,
  for a NormalNode, its input edge are untouched. The first part is
  \<open>MultiOutputNode::AddEdge\<close>, which a Literal has; the second is \<open>NormalNode::AddEdge\<close>,
  which Port, Signal, Parameter and Expression have.
\<close>

theorem AddEdge_false_leaves_node:
  "(\<not> fst (MultiOutputNode_AddEdge this es m edge) \<longrightarrow>
      snd (MultiOutputNode_AddEdge this es m edge) = m)
   \<and> (\<not> fst (NormalNode_AddEdge this' es' n edge') \<longrightarrow>
      snd (NormalNode_AddEdge this' es' n edge') = n
      \<and> outputs (snd (NormalNode_AddEdge this' es' n edge')) = outputs n
      \<and> input (snd (NormalNode_AddEdge this' es' n edge')) = input n)"
  by (simp add: MultiOutputNode_AddEdge_def NormalNode_AddEdge_def)

theorem AddEdge_false_leaves_node_witness:
  "\<not> fst (MultiOutputNode_AddEdge 3 example_edges (bool_true 0) 10)
   \<and> snd (MultiOutputNode_AddEdge 3 example_edges (bool_true 0) 10) = bool_true 0
   \<and> \<not> fst (NormalNode_AddEdge 1 example_edges example_port 12)
   \<and> snd (NormalNode_AddEdge 1 example_edges example_port 12) = example_port
   \<and> input (snd (NormalNode_AddEdge 1 example_edges example_port 12)) = Some 10"
proof -
  have literal_rejects: "\<not> fst (MultiOutputNode_AddEdge 3 example_edges (bool_true 0) 10)"
    by (simp add: MultiOutputNode_AddEdge_def example_edges_values)
  have port_rejects: "\<not> fst (NormalNode_AddEdge 1 example_edges example_port 12)"
    by (simp add: NormalNode_AddEdge_def MultiOutputNode_AddEdge_def example_edges_values)
  from AddEdge_false_leaves_node
      [of 3 example_edges "bool_true 0" 10 1 example_edges example_port 12]
    literal_rejects port_rejects
  show ?thesis
    by (simp add: example_port_value)
qed

subsection \<open>Literal\<close>

text \<open>
  C3, as the code has it. \<open>Literal::AddSource\<close> never returns an edge: for every literal,
  in whatever state earlier calls have left it, and for every source node the call ends in
  the runtime error "Cannot drive a literal node.". A literal has no input slot and node.cc
  gives it no \<open>AddEdge\<close> of its own, so it registers edges with \<open>MultiOutputNode::AddEdge\<close>:
  an edge whose source is not the literal is rejected and leaves the literal as it was, and
  an edge that the literal accepts has the literal as its source and is appended to its
  outputs.
\<close>

theorem Literal_accepts_no_input:
  fixes l :: Literal
  shows "Literal_AddSource l source = Inl (runtime_error ''Cannot drive a literal node.'')
   \<and> (\<nexists>edge. Literal_AddSource l source = Inr edge)
   \<and> (src (es edge) \<noteq> Some this \<longrightarrow>
        MultiOutputNode_AddEdge this es l edge = (False, l))
   \<and> (fst (MultiOutputNode_AddEdge this es l edge) \<longrightarrow>
        src (es edge) = Some this
        \<and> snd (MultiOutputNode_AddEdge this es l edge) = l\<lparr>outputs := outputs l @ [edge]\<rparr>)"
  by (simp add: Literal_AddSource_def MultiOutputNode_AddEdge_def)

theorem Literal_accepts_no_input_witness:
  "src (literal_edges 13) \<noteq> Some 3 \<and> dst (literal_edges 13) = Some 3
   \<and> Literal_AddSource (bool_true 0) 0 = Inl (runtime_error ''Cannot drive a literal node.'')
   \<and> MultiOutputNode_AddEdge 3 literal_edges (bool_true 0) 13 = (False, bool_true 0)
   \<and> fst (MultiOutputNode_AddEdge 3 literal_edges (bool_true 0) 14)
   \<and> outputs (snd (MultiOutputNode_AddEdge 3 literal_edges (bool_true 0) 14)) = [14]"
proof -
  have not_source: "src (literal_edges 13) \<noteq> Some 3"
    by (simp add: literal_edges_values)
  have as_output: "fst (MultiOutputNode_AddEdge 3 literal_edges (bool_true 0) 14)"
    by (simp add: MultiOutputNode_AddEdge_def literal_edges_values bool_true_value)
  from Literal_accepts_no_input [of "bool_true 0" 0 literal_edges 13 3]
    Literal_accepts_no_input [of "bool_true 0" 0 literal_edges 14 3]
    not_source as_output
  show ?thesis
    by (simp add: literal_edges_values bool_true_value)
qed

text \<open>
  C3, as it is stated, fails in its last clause: a literal can be the destination of an
  edge. Edge 13 has the literal at address 3 as its destination, and signal \<open>a\<close>, its
  source, accepts it among its outputs, since \<open>AddEdge\<close> looks at the source only; edge 14
  has the literal as its destination too, and the literal itself accepts it, as an output.
\<close>

theorem Literal_destination_counterexample:
  "dst (literal_edges 13) = Some 3
   \<and> fst (NormalNode_AddEdge 0 literal_edges (Signal_Make ''a'' 0) 13)
   \<and> outputs (snd (NormalNode_AddEdge 0 literal_edges (Signal_Make ''a'' 0) 13)) = [13]
   \<and> dst (literal_edges 14) = Some 3
   \<and> fst (MultiOutputNode_AddEdge 3 literal_edges (bool_true 0) 14)
   \<and> outputs (snd (MultiOutputNode_AddEdge 3 literal_edges (bool_true 0) 14)) = [14]"
  by (simp add: literal_edges_values bool_true_value NormalNode_AddEdge_def
      MultiOutputNode_AddEdge_def Signal_Make_def Signal_new_def NormalNode_new_def
      MultiOutputNode_new_def MultiOutputNode.defs)

text \<open>
  C8, as the code has it. \<open>ToString\<close> follows the storage kind that the constructor
  stamped. A string literal renders as its string, so "foo" renders as "foo"; an integer
  literal renders as the decimal text of its value, so 42 renders as "42"; a boolean
  literal goes through \<open>std::to_string\<close> as well and renders as the number it is promoted
  to: "1" for true and "0" for false.
\<close>

theorem Literal_ToString_by_storage_kind:
  "storage_type (Literal_new_bool nm t b) = BOOL
   \<and> Literal_ToString (Literal_new_bool nm t b) = (if b then ''1'' else ''0'')
   \<and> storage_type (Literal_new_int nm t v) = StorageType.INT
   \<and> Literal_ToString (Literal_new_int nm t v) = to_string (sint v)
   \<and> Literal_ToString (Literal_new_int nm t 42) = ''42''
   \<and> storage_type (Literal_new_string nm t s) = STRING
   \<and> Literal_ToString (Literal_new_string nm t s) = s
   \<and> Literal_ToString (Literal_new_string nm t ''foo'') = ''foo''"
  by (simp add: Literal_ToString_def Literal_new_bool_def Literal_new_int_def
      Literal_new_string_def MultiOutputNode_new_def MultiOutputNode.defs to_string_def
      int_of_bool_def to_string_nat.simps digit_char_def)

text \<open>
  C8, as it is stated, fails on the boolean literal true: the shared literal of
  \<open>bool_true()\<close> renders as "1", which is not the text "true".
\<close>

theorem Literal_ToString_bool_counterexample:
  "storage_type (bool_true 0) = BOOL \<and> bool_val (bool_true 0) = True
   \<and> Literal_ToString (bool_true 0) = ''1''
   \<and> Literal_ToString (bool_true 0) \<noteq> ''true''"
  by (simp add: bool_true_value Literal_ToString_def to_string_def int_of_bool_def
      to_string_nat.simps digit_char_def)

text \<open>
  C10. The literal of \<open>bool_false()\<close> is a boolean literal with the value false and the
  name "bool_true", which is also the name of the literal of \<open>bool_true()\<close>, whose value
  is true: the two differ in their value, not in their name.
\<close>

theorem bool_false_is_named_bool_true:
  "storage_type (bool_false b) = BOOL \<and> bool_val (bool_false b) = False
   \<and> name (bool_false b) = ''bool_true''
   \<and> storage_type (bool_true b) = BOOL \<and> bool_val (bool_true b) = True
   \<and> name (bool_true b) = ''bool_true''
   \<and> name (bool_false b) = name (bool_true b)
   \<and> bool_false b \<noteq> bool_true b"
  by (simp add: bool_true_value bool_false_value)

subsection \<open>Parameter, copies and directions\<close>

text \<open>
  C4. \<open>Parameter::val\<close> returns the source of the input edge when the parameter holds an
  input edge, whether or not a default literal was given; with no input edge it returns the
  default literal when one was given at construction, and nothing otherwise.
\<close>

theorem Parameter_val_resolution:
  "(input p = Some e \<longrightarrow> val es p = src (es e))
   \<and> (input p = None \<and> default_value p = Some d \<longrightarrow> val es p = Some d)
   \<and> (input p = None \<and> default_value p = None \<longrightarrow> val es p = None)"
  by (simp add: val_def NormalNode_input_def)

theorem Parameter_val_resolution_witness:
  "default_value example_parameter_driven = Some 3
   \<and> val example_edges example_parameter_driven = Some 0
   \<and> val example_edges example_parameter_default = Some 3
   \<and> val example_edges example_parameter_bare = None"
  using Parameter_val_resolution [of example_parameter_driven 10 example_edges 3]
    Parameter_val_resolution [of example_parameter_default 10 example_edges 3]
    Parameter_val_resolution [of example_parameter_bare 10 example_edges 3]
  by (simp add: example_parameter_values example_edges_values)

text \<open>
  C7. A copy carries no edge: the copy of a port, of a parameter and of a signal has no
  source and no output, and the copy of a literal has no output, whatever edges the
  original holds. The copy has the name and the type of the original; the copy of a port
  has its direction, the copy of a parameter its default literal, the copy of a literal
  its storage kind and values.
\<close>

theorem Copy_carries_no_edges:
  "sources (Port_Copy p) = [] \<and> outputs (Port_Copy p) = []
   \<and> name (Port_Copy p) = name p \<and> type (Port_Copy p) = type p
   \<and> dir (Port_Copy p) = dir p
   \<and> sources (Parameter_Copy q) = [] \<and> outputs (Parameter_Copy q) = []
   \<and> name (Parameter_Copy q) = name q \<and> type (Parameter_Copy q) = type q
   \<and> default_value (Parameter_Copy q) = default_value q
   \<and> sources (Signal_Copy s) = [] \<and> outputs (Signal_Copy s) = []
   \<and> name (Signal_Copy s) = name s \<and> type (Signal_Copy s) = type s
   \<and> outputs (Literal_Copy l) = []
   \<and> name (Literal_Copy l) = name l \<and> type (Literal_Copy l) = type l
   \<and> storage_type (Literal_Copy l) = storage_type l \<and> str_val (Literal_Copy l) = str_val l
   \<and> int_val (Literal_Copy l) = int_val l \<and> bool_val (Literal_Copy l) = bool_val l"
  by (simp add: Port_Copy_def Port_new_def Parameter_Copy_def Parameter_Make_def
      Parameter_new_def Signal_Copy_def Signal_new_def Literal_Copy_def Literal_new_all_def
      NormalNode_new_def MultiOutputNode_new_def sources_def MultiOutputNode.defs
      NormalNode.defs)

theorem Copy_carries_no_edges_witness:
  "sources example_port = [10] \<and> sources (Port_Copy example_port) = []
   \<and> outputs example_signal = [10] \<and> outputs (Signal_Copy example_signal) = []
   \<and> sources example_parameter_driven = [10]
   \<and> sources (Parameter_Copy example_parameter_driven) = []
   \<and> default_value (Parameter_Copy example_parameter_driven) = Some 3
   \<and> dir (Port_Copy example_port) = OUT \<and> name (Port_Copy example_port) = ''b''"
  using Copy_carries_no_edges [of example_port example_parameter_driven example_signal]
  by (simp add: example_port_value example_signal_value example_parameter_values sources_def)

text \<open>
  C9. Inverting a direction twice gives the direction back; in becomes out, out becomes
  in, and none stays none.
\<close>

theorem Invert_involutive:
  "Invert (Invert d) = d \<and> Invert IN = OUT \<and> Invert OUT = IN \<and> Invert NONE = NONE"
  by (cases d) (simp_all add: Invert_def)

end
